theory Spec2Isabelle
  imports Complex_Main
begin

section \<open>Numbers, points and the toolkit's types\<close>

text \<open>
  The two components are Svelte files written in TypeScript: the polyline editor
  (\<^verbatim>\<open>src/line/LineEditor.svelte\<close>) and the rubber-band tool that draws an ellipse.
  A TypeScript \<^verbatim>\<open>number\<close> is a \<^typ>\<open>real\<close>; \<^verbatim>\<open>Math.abs\<close>, \<^verbatim>\<open>Math.min\<close> and
  \<^verbatim>\<open>Math.max\<close> are \<open>abs\<close>, \<open>min\<close> and \<open>max\<close>, which no double rounds. The line editor,
  \<open>stopDrawing\<close> and the pointer handlers are written with the exact \<open>+\<close>, \<open>-\<close>, \<open>*\<close> and
  \<open>/\<close>; \<open>updateShape\<close>, whose rectangle depends on it, is written with the rounded
  operations of the section on double arithmetic. NaN and the infinities are outside the
  model; where the source can divide by zero the case is written out. A value of type
  \<^verbatim>\<open>T | undefined\<close> is a \<^typ>\<open>'a option\<close>; an array index is a \<^typ>\<open>nat\<close>.
  \<^verbatim>\<open>performance.now()\<close> is an argument \<open>now\<close> of every handler that reads the clock.
\<close>

type_synonym number = real

type_synonym point = "number \<times> number"

record Bounds =
  minX :: number
  minY :: number
  maxX :: number
  maxY :: number

text \<open>The fields of a DOM pointer event and keyboard event that the handlers read.\<close>

record PointerEvent =
  offsetX :: number
  offsetY :: number
  metaKey :: bool
  ctrlKey :: bool
  shiftKey :: bool

record KeyboardEvent =
  key :: string

text \<open>
  \<^verbatim>\<open>transform.elementToImage(x, y)\<close> belongs to the host toolkit; the model takes it as
  a field of the prop, any function from element to image coordinates.
\<close>

record Transform =
  elementToImage :: "number \<Rightarrow> number \<Rightarrow> point"

text \<open>Reading a property of \<^verbatim>\<open>undefined\<close> throws a \<^verbatim>\<open>TypeError\<close>.\<close>

datatype error = TypeError

text \<open>
  The callbacks of \<^verbatim>\<open>reduce\<close>, \<^verbatim>\<open>map\<close> and \<^verbatim>\<open>filter\<close> receive the element and its
  index.
\<close>

definition reduce_idx :: "('b \<Rightarrow> 'a \<Rightarrow> nat \<Rightarrow> 'b) \<Rightarrow> 'b \<Rightarrow> 'a list \<Rightarrow> 'b" where
  "reduce_idx f init xs = foldl (\<lambda>acc (idx, a). f acc a idx) init (enumerate 0 xs)"

definition map_idx :: "('a \<Rightarrow> nat \<Rightarrow> 'b) \<Rightarrow> 'a list \<Rightarrow> 'b list" where
  "map_idx f xs = map (\<lambda>(idx, a). f a idx) (enumerate 0 xs)"

definition filter_idx :: "('a \<Rightarrow> nat \<Rightarrow> bool) \<Rightarrow> 'a list \<Rightarrow> 'a list" where
  "filter_idx p xs = map snd (filter (\<lambda>(idx, a). p a idx) (enumerate 0 xs))"

text \<open>\<^verbatim>\<open>xs[i]\<close> is \<^verbatim>\<open>undefined\<close> outside the array.\<close>

definition at_index :: "'a list \<Rightarrow> nat \<Rightarrow> 'a option" where
  "at_index xs i = (if i < length xs then Some (xs ! i) else None)"

text \<open>
  A template literal prints a non-negative integer index in decimal, without leading
  zeros.
\<close>

function string_of_index :: "nat \<Rightarrow> string" where
  "string_of_index n =
     (if n < 10 then [char_of (48 + n)]
      else string_of_index (n div 10) @ [char_of (48 + n mod 10)])"
  by pat_completeness auto
termination
  by (relation "measure id") auto

section \<open>The line editor\<close>

record LineGeometry =
  bounds :: Bounds
  points :: "point list"

text \<open>
  A line shape. The spread \<^verbatim>\<open>{ ...shape, geometry: ... }\<close> copies the other fields of
  the shape, which no function here reads; the record keeps the geometry.
\<close>

record Line =
  geometry :: LineGeometry

record Midpoint =
  point :: point
  visible :: bool

text \<open>
  The component's variables: the props \<open>shape\<close> and \<open>viewportScale\<close> and the local
  state. \<^verbatim>\<open>isTouch\<close> and \<^verbatim>\<open>boundsFromPoints\<close> are imported from the toolkit and are
  arguments of the functions that use them.
\<close>

record LineEditor =
  shape :: Line
  viewportScale :: number
  visibleMidpoint :: "nat option"
  isHandleHovered :: bool
  lastHandleClick :: "number option"
  selectedCorners :: "nat list"

definition CLICK_THRESHOLD :: number where
  "CLICK_THRESHOLD = 250"

definition MIN_CORNER_DISTANCE :: number where
  "MIN_CORNER_DISTANCE = 12"

definition geom :: "LineEditor \<Rightarrow> LineGeometry" where
  "geom s = geometry (shape s)"

text \<open>
  The callback of the \<^verbatim>\<open>reduce\<close> that computes \<open>midpoints\<close>. The read
  \<^verbatim>\<open>geom.points[idx + 1]\<close> is in range: the last index returns before it.
  \<^verbatim>\<open>MIN_CORNER_DISTANCE / viewportScale\<close> is \<^verbatim>\<open>Infinity\<close> when the scale is 0, and no
  distance exceeds it.
\<close>

definition midpoints_step ::
  "point list \<Rightarrow> number \<Rightarrow> Midpoint list \<Rightarrow> point \<Rightarrow> nat \<Rightarrow> Midpoint list" where
  "midpoints_step pts scale acc thisCorner idx =
     (if int idx = int (length pts) - 1 then acc
      else
        let nextCorner = pts ! (idx + 1);
            mx = (fst thisCorner + fst nextCorner) / 2;
            my = (snd thisCorner + snd nextCorner) / 2;
            dist = sqrt ((fst nextCorner - mx) ^ 2 + (snd nextCorner - my) ^ 2);
            vis = (scale \<noteq> 0 \<and> dist > MIN_CORNER_DISTANCE / scale)
        in acc @ [\<lparr>point = (mx, my), visible = vis\<rparr>])"

definition midpoints :: "bool \<Rightarrow> LineEditor \<Rightarrow> Midpoint list" where
  "midpoints isTouch s =
     (if isTouch then []
      else reduce_idx (midpoints_step (points (geom s)) (viewportScale s)) []
             (points (geom s)))"

definition onLinePointerUp :: "LineEditor \<Rightarrow> LineEditor" where
  "onLinePointerUp s = s\<lparr>selectedCorners := []\<rparr>"

definition onHandlePointerDown :: "number \<Rightarrow> LineEditor \<Rightarrow> LineEditor" where
  "onHandlePointerDown now s = s\<lparr>isHandleHovered := True, lastHandleClick := Some now\<rparr>"

text \<open>
  \<^verbatim>\<open>!lastHandleClick\<close> holds when the time stamp is undefined and when it is 0.
  Reclaiming the focus acts on the DOM only.
\<close>

definition onHandlePointerUp ::
  "bool \<Rightarrow> nat \<Rightarrow> PointerEvent \<Rightarrow> number \<Rightarrow> LineEditor \<Rightarrow> LineEditor" where
  "onHandlePointerUp isTouch idx evt now s =
     (case lastHandleClick s of
        None \<Rightarrow> s
      | Some t \<Rightarrow>
          if t = 0 \<or> isTouch then s
          else if now - t > CLICK_THRESHOLD then s
          else
            let isSelected = (idx \<in> set (selectedCorners s)) in
            if metaKey evt \<or> ctrlKey evt \<or> shiftKey evt then
              (if isSelected
               then s\<lparr>selectedCorners := filter (\<lambda>i. i \<noteq> idx) (selectedCorners s)\<rparr>
               else s\<lparr>selectedCorners := selectedCorners s @ [idx]\<rparr>)
            else
              (if isSelected \<and> length (selectedCorners s) > 1
               then s\<lparr>selectedCorners := [idx]\<rparr>
               else if isSelected
               then s\<lparr>selectedCorners := []\<rparr>
               else s\<lparr>selectedCorners := [idx]\<rparr>))"

definition editor ::
  "(point list \<Rightarrow> Bounds) \<Rightarrow> LineEditor \<Rightarrow> Line \<Rightarrow> string \<Rightarrow> number \<times> number \<Rightarrow> Line" where
  "editor boundsFromPoints s line handle delta =
     (let g = geometry line;
          dx = fst delta;
          dy = snd delta;
          pts =
            (if length (selectedCorners s) > 1 then
               map_idx (\<lambda>(px, py) idx.
                 if idx \<in> set (selectedCorners s) then (px + dx, py + dy) else (px, py))
                 (points g)
             else if handle = ''LINE'' then
               map (\<lambda>(px, py). (px + dx, py + dy)) (points g)
             else
               map_idx (\<lambda>(px, py) idx.
                 if handle = ''HANDLE-'' @ string_of_index idx
                 then (px + dx, py + dy) else (px, py))
                 (points g));
          bnds = boundsFromPoints pts
      in line\<lparr>geometry := \<lparr>bounds = bnds, points = pts\<rparr>\<rparr>)"

text \<open>
  \<open>onAddPoint\<close> up to its dispatch; the value is the \<open>change\<close> event. With no midpoint at
  the index and no \<open>point\<close> argument the array built holds \<^verbatim>\<open>undefined\<close> where a
  point is expected; the model stops there with an error, since \<^verbatim>\<open>boundsFromPoints\<close>
  takes a list of points. What follows the dispatch (the synthetic pointer-down on the
  new handle) acts on the DOM only.
\<close>

definition onAddPoint ::
  "(point list \<Rightarrow> Bounds) \<Rightarrow> bool \<Rightarrow> nat \<Rightarrow> point option \<Rightarrow> LineEditor \<Rightarrow> error + Line" where
  "onAddPoint boundsFromPoints isTouch insertionIndex pnt s =
     (let inserted =
            (case at_index (midpoints isTouch s) insertionIndex of
               Some m \<Rightarrow> Some (point m)
             | None \<Rightarrow> pnt)
      in case inserted of
           None \<Rightarrow> Inl TypeError
         | Some p \<Rightarrow>
             let pts = take (insertionIndex + 1) (points (geom s)) @ [p]
                         @ drop (insertionIndex + 1) (points (geom s));
                 bnds = boundsFromPoints pts
             in Inr ((shape s)\<lparr>geometry := \<lparr>bounds = bnds, points = pts\<rparr>\<rparr>))"

text \<open>The value is the dispatched \<open>change\<close> event, if any, and the state afterwards.\<close>

definition onDeleteSelected ::
  "(point list \<Rightarrow> Bounds) \<Rightarrow> LineEditor \<Rightarrow> Line option \<times> LineEditor" where
  "onDeleteSelected boundsFromPoints s =
     (if int (length (points (geom s))) - int (length (selectedCorners s)) < 2
      then (None, s)
      else
        let pts = filter_idx (\<lambda>_ i. i \<notin> set (selectedCorners s)) (points (geom s));
            bnds = boundsFromPoints pts
        in (Some ((shape s)\<lparr>geometry := \<lparr>bounds = bnds, points = pts\<rparr>\<rparr>),
            s\<lparr>selectedCorners := []\<rparr>))"

section \<open>Double arithmetic\<close>

text \<open>
  The arithmetic of the source is that of IEEE 754 doubles: every result of \<open>+\<close>, \<open>-\<close>,
  \<open>*\<close> and \<open>/\<close> is the double nearest to the exact result, a tie going to the even
  mantissa. \<open>exponent64\<close> is the binary exponent of a number other than 0, not below
  -1022 (where the subnormal numbers begin) and not above 1023; a double is an integer
  multiple, of at most 53 bits, of 2 to the power of that exponent minus 52. Results
  beyond the largest double, which the source turns into \<^verbatim>\<open>Infinity\<close>, are outside the
  model.
\<close>

fun binade_up :: "nat \<Rightarrow> real \<Rightarrow> int \<Rightarrow> int" where
  "binade_up 0 v e = e"
| "binade_up (Suc n) v e = (if v < 2 then e else binade_up n (v / 2) (e + 1))"

fun binade_down :: "nat \<Rightarrow> real \<Rightarrow> int \<Rightarrow> int" where
  "binade_down 0 v e = e"
| "binade_down (Suc n) v e = (if 1 \<le> v then e else binade_down n (2 * v) (e - 1))"

definition exponent64 :: "real \<Rightarrow> int" where
  "exponent64 v =
     (if 1 \<le> \<bar>v\<bar> then binade_up 1023 \<bar>v\<bar> 0 else binade_down 1022 \<bar>v\<bar> 0)"

definition ties_to_even :: "real \<Rightarrow> int" where
  "ties_to_even r =
     (let f = \<lfloor>r\<rfloor>; d = r - of_int f
      in if d < 1 / 2 then f else if 1 / 2 < d then f + 1
         else if even f then f else f + 1)"

definition round64 :: "real \<Rightarrow> number" where
  "round64 v =
     (if v = 0 then 0
      else let u = 2 powi (exponent64 v - 52)
           in of_int (ties_to_even (v / u)) * u)"

definition add64 :: "number \<Rightarrow> number \<Rightarrow> number" where
  "add64 a b = round64 (a + b)"

definition sub64 :: "number \<Rightarrow> number \<Rightarrow> number" where
  "sub64 a b = round64 (a - b)"

definition mul64 :: "number \<Rightarrow> number \<Rightarrow> number" where
  "mul64 a b = round64 (a * b)"

definition div64 :: "number \<Rightarrow> number \<Rightarrow> number" where
  "div64 a b = round64 (a / b)"

section \<open>The rubber-band tool for ellipses\<close>

datatype DrawingMode = Click | Drag

text \<open>The only member of the toolkit's enum \<^verbatim>\<open>ShapeType\<close> that the tool names.\<close>

datatype ShapeType = ELLIPSE

record EllipseGeometry =
  bounds :: Bounds
  cx :: number
  cy :: number
  rx :: number
  ry :: number

record Ellipse =
  type :: ShapeType
  geometry :: EllipseGeometry

text \<open>
  The component's variables: the props \<open>drawingMode\<close> and \<open>transform\<close> and the local
  state. \<open>x\<close>, \<open>y\<close>, \<open>w\<close> and \<open>h\<close> are declared \<^verbatim>\<open>number\<close> and are assigned wherever
  \<open>origin\<close> is; they are read only while \<open>origin\<close> is defined. \<open>lastPointerDown\<close> is
  read by every pointer-up, so its undefined initial value is kept.
\<close>

record EllipseTool =
  drawingMode :: DrawingMode
  transform :: Transform
  origin :: "point option"
  anchor :: "point option"
  x :: number
  y :: number
  w :: number
  h :: number
  isShiftPressed :: bool
  isCtrlPressed :: bool
  lastPointerDown :: "number option"
  lastMoveEvent :: "PointerEvent option"

definition onPointerDown :: "PointerEvent \<Rightarrow> number \<Rightarrow> EllipseTool \<Rightarrow> EllipseTool" where
  "onPointerDown evt now s =
     (let s1 = s\<lparr>lastPointerDown := Some now\<rparr> in
      if drawingMode s1 = Drag then
        let p = elementToImage (transform s1) (offsetX evt) (offsetY evt)
        in s1\<lparr>origin := Some p, anchor := Some p, x := fst p, y := snd p, w := 1, h := 1\<rparr>
      else s1)"

text \<open>
  \<open>updateShape\<close> is the pointer-move listener and is called without an event by the key
  handlers. With \<open>origin\<close> defined and neither an event nor a remembered move event,
  \<^verbatim>\<open>evt!.offsetX\<close> reads a property of \<^verbatim>\<open>undefined\<close>: the call throws before it
  assigns anything, so \<open>Inl\<close> leaves the state as it was. The differences, the doubling
  and the halving are the rounded operations of doubles.
\<close>

definition updateShape :: "PointerEvent option \<Rightarrow> EllipseTool \<Rightarrow> error + EllipseTool" where
  "updateShape maybeEvent s =
     (let evt = (case maybeEvent of Some e \<Rightarrow> Some e | None \<Rightarrow> lastMoveEvent s);
          remember = (\<lambda>t. case maybeEvent of
                             Some e \<Rightarrow> t\<lparr>lastMoveEvent := Some e\<rparr>
                           | None \<Rightarrow> t)
      in case origin s of
           None \<Rightarrow> Inr (remember s)
         | Some org \<Rightarrow>
             (case evt of
                None \<Rightarrow> Inl TypeError
              | Some e \<Rightarrow>
                  let anc = elementToImage (transform s) (offsetX e) (offsetY e);
                      s1 = s\<lparr>anchor := Some anc\<rparr>;
                      s2 =
                        (if isCtrlPressed s1 then
                           let mw = mul64 2 \<bar>sub64 (fst anc) (fst org)\<bar>;
                               mh = mul64 2 \<bar>sub64 (snd anc) (snd org)\<bar>;
                               nw = (if isShiftPressed s1 then max mw mh else mw);
                               nh = (if isShiftPressed s1 then nw else mh)
                           in s1\<lparr>w := nw, h := nh,
                                 x := min (fst anc) (sub64 (fst org) (div64 nw 2)),
                                 y := min (snd anc) (sub64 (snd org) (div64 nh 2))\<rparr>
                         else
                           let mw = \<bar>sub64 (fst anc) (fst org)\<bar>;
                               mh = \<bar>sub64 (snd anc) (snd org)\<bar>;
                               nw = (if isShiftPressed s1 then max mw mh else mw);
                               nh = (if isShiftPressed s1 then nw else mh)
                           in s1\<lparr>w := nw, h := nh,
                                 x := min (fst anc) (fst org),
                                 y := min (snd anc) (snd org)\<rparr>)
                  in Inr (remember s2)))"

text \<open>The value is the dispatched \<open>create\<close> event, if any, and the state afterwards.\<close>

definition stopDrawing :: "EllipseTool \<Rightarrow> Ellipse option \<times> EllipseTool" where
  "stopDrawing s =
     (let created =
            (if w s * h s > 15 then
               Some \<lparr>type = ELLIPSE,
                     geometry = \<lparr>bounds = \<lparr>minX = x s, minY = y s,
                                           maxX = x s + w s, maxY = y s + h s\<rparr>,
                                 cx = x s + w s / 2,
                                 cy = y s + h s / 2,
                                 rx = w s / 2,
                                 ry = h s / 2\<rparr>\<rparr>
             else None)
      in (created, s\<lparr>origin := None, anchor := None, lastMoveEvent := None\<rparr>))"

text \<open>
  The value of \<open>onPointerUp\<close>: the dispatched \<open>create\<close> event, if any, whether
  \<^verbatim>\<open>evt.stopPropagation()\<close> was called, and the state afterwards.
  \<open>timeDifference\<close> is NaN while \<open>lastPointerDown\<close> is undefined, and NaN exceeds nothing.
\<close>

definition exceeds :: "number option \<Rightarrow> number \<Rightarrow> bool" where
  "exceeds d limit = (case d of None \<Rightarrow> False | Some v \<Rightarrow> v > limit)"

definition onPointerUp ::
  "PointerEvent \<Rightarrow> number \<Rightarrow> EllipseTool \<Rightarrow> Ellipse option \<times> bool \<times> EllipseTool" where
  "onPointerUp evt now s =
     (let timeDifference = map_option (\<lambda>t. now - t) (lastPointerDown s) in
      if drawingMode s = Click then
        (if exceeds timeDifference 300 then (None, False, s)
         else if origin s \<noteq> None then
           (let (created, s') = stopDrawing s in (created, False, s'))
         else
           let p = elementToImage (transform s) (offsetX evt) (offsetY evt)
           in (None, False,
               s\<lparr>origin := Some p, anchor := Some p, x := fst p, y := snd p, w := 1, h := 1\<rparr>))
      else if origin s \<noteq> None then
        (if exceeds timeDifference 300 \<or> w s * h s > 100 then
           (let (created, s') = stopDrawing s in (created, True, s'))
         else (None, False, s\<lparr>origin := None, anchor := None, lastMoveEvent := None\<rparr>))
      else (None, False, s))"

text \<open>
  The key handlers set the flag and then call \<open>updateShape\<close> without an event. When that
  call throws, the handler ends there and the flag stays set: the value is the error, if
  any, and the state at that moment.
\<close>

definition redraw :: "EllipseTool \<Rightarrow> error option \<times> EllipseTool" where
  "redraw s = (case updateShape None s of Inl e \<Rightarrow> (Some e, s) | Inr s' \<Rightarrow> (None, s'))"

definition onKeyDown :: "KeyboardEvent \<Rightarrow> EllipseTool \<Rightarrow> error option \<times> EllipseTool" where
  "onKeyDown evt s =
     (let (thrown, s1) =
            (if key evt = ''Shift'' then redraw (s\<lparr>isShiftPressed := True\<rparr>) else (None, s))
      in case thrown of
           Some e \<Rightarrow> (Some e, s1)
         | None \<Rightarrow>
             if key evt = ''Control'' then redraw (s1\<lparr>isCtrlPressed := True\<rparr>)
             else (None, s1))"

definition onKeyUp :: "KeyboardEvent \<Rightarrow> EllipseTool \<Rightarrow> error option \<times> EllipseTool" where
  "onKeyUp evt s =
     (let (thrown, s1) =
            (if key evt = ''Shift'' then redraw (s\<lparr>isShiftPressed := False\<rparr>) else (None, s))
      in case thrown of
           Some e \<Rightarrow> (Some e, s1)
         | None \<Rightarrow>
             if key evt = ''Control'' then redraw (s1\<lparr>isCtrlPressed := False\<rparr>)
             else (None, s1))"

section \<open>Example inputs\<close>

text \<open>
  Concrete inputs on which the theorems below are exercised: a pointer event with no
  modifier key, the tool before its first event under the identity transform (\<open>x\<close>, \<open>y\<close>,
  \<open>w\<close> and \<open>h\<close>, not yet assigned, are filled with 0), and an editor on a polyline of
  three points with nothing selected.
\<close>

definition pointerAt :: "number \<Rightarrow> number \<Rightarrow> PointerEvent" where
  "pointerAt px py =
     \<lparr>offsetX = px, offsetY = py, metaKey = False, ctrlKey = False, shiftKey = False\<rparr>"

definition idleTool :: "DrawingMode \<Rightarrow> EllipseTool" where
  "idleTool mode =
     \<lparr>drawingMode = mode, transform = \<lparr>elementToImage = Pair\<rparr>,
      origin = None, anchor = None, x = 0, y = 0, w = 0, h = 0,
      isShiftPressed = False, isCtrlPressed = False,
      lastPointerDown = None, lastMoveEvent = None\<rparr>"

text \<open>The double nearest to 0.1, which is what the source reads for \<^verbatim>\<open>0.1\<close>.\<close>

definition tenth :: number where
  "tenth = 3602879701896397 / 2 ^ 55"

definition exampleEditor :: LineEditor where
  "exampleEditor =
     \<lparr>shape = \<lparr>Line.geometry =
                 \<lparr>LineGeometry.bounds = \<lparr>minX = 0, minY = 0, maxX = 4, maxY = 2\<rparr>,
                  points = [(0, 0), (2, 2), (4, 2)]\<rparr>\<rparr>,
      viewportScale = 1, visibleMidpoint = None, isHandleHovered = False,
      lastHandleClick = None, selectedCorners = []\<rparr>"

text \<open>
  A stand-in for the toolkit's \<^verbatim>\<open>boundsFromPoints\<close>, which the theorems leave arbitrary:
  the bounding box of a non-empty list.
\<close>

definition exampleBounds :: "point list \<Rightarrow> Bounds" where
  "exampleBounds pts =
     (case pts of
        [] \<Rightarrow> \<lparr>minX = 0, minY = 0, maxX = 0, maxY = 0\<rparr>
      | p # ps \<Rightarrow>
          \<lparr>minX = fold min (map fst ps) (fst p), minY = fold min (map snd ps) (snd p),
           maxX = fold max (map fst ps) (fst p), maxY = fold max (map snd ps) (snd p)\<rparr>)"

section \<open>Lists with indices\<close>

lemma enumerate_nth_map: "enumerate 0 xs = map (\<lambda>i. (i, xs ! i)) [0..<length xs]"
  by (rule nth_equalityI) (simp_all add: nth_enumerate_eq)

lemma foldl_append_step:
  "(\<And>acc a. f acc a = acc @ g a) \<Longrightarrow> foldl f acc xs = acc @ concat (map g xs)"
  by (induction xs arbitrary: acc) simp_all

lemma reduce_idx_append:
  assumes "\<And>acc a idx. f acc a idx = acc @ g a idx"
  shows "reduce_idx f init xs = init @ concat (map (\<lambda>i. g (xs ! i) i) [0..<length xs])"
proof -
  have "foldl (\<lambda>acc (idx, a). f acc a idx) init (enumerate 0 xs)
          = init @ concat (map (\<lambda>(idx, a). g a idx) (enumerate 0 xs))"
    by (rule foldl_append_step) (simp add: assms split: prod.split)
  then show ?thesis
    by (simp add: reduce_idx_def enumerate_nth_map comp_def)
qed

lemma concat_skip_last:
  "concat (map (\<lambda>i. if int i = int n - 1 then [] else [f i]) [0..<n]) = map f [0..<n - 1]"
proof (cases n)
  case 0
  then show ?thesis by simp
next
  case (Suc m)
  have "concat (map (\<lambda>i. if int i = int (Suc m) - 1 then [] else [f i]) [0..<m])
          = concat (map (\<lambda>i. [f i]) [0..<m])"
    by (rule arg_cong [where f = concat], rule map_cong) auto
  also have "\<dots> = map f [0..<m]"
    by (induction m) simp_all
  finally show ?thesis using Suc by simp
qed

lemma length_map_idx: "length (map_idx f xs) = length xs"
  by (simp add: map_idx_def)

lemma nth_map_idx: "i < length xs \<Longrightarrow> map_idx f xs ! i = f (xs ! i) i"
  by (simp add: map_idx_def nth_enumerate_eq)

text \<open>Filtering on the index alone keeps the elements at the indices of the set.\<close>

lemma filter_idx_nths: "filter_idx (\<lambda>_ i. i \<in> A) xs = nths xs A"
proof -
  have "zip xs [0..<length xs] = map (\<lambda>(i, a). (a, i)) (zip [0..<length xs] xs)"
    by (rule zip_commute)
  then show ?thesis
    by (simp add: filter_idx_def nths_def enumerate_eq_zip filter_map comp_def
          case_prod_unfold)
qed

lemma card_selected_le: "card {i. i < n \<and> i \<in> set sel} \<le> length sel"
proof -
  have "card {i. i < n \<and> i \<in> set sel} \<le> card (set sel)"
    by (rule card_mono) auto
  also have "\<dots> \<le> length sel"
    by (rule card_length)
  finally show ?thesis .
qed

text \<open>
  Removing the indices of a list \<open>sel\<close> removes at most \<open>length sel\<close> elements, also
  when \<open>sel\<close> repeats an index or names one outside the list.
\<close>

lemma length_nths_remaining:
  "length xs - length sel \<le> length (nths xs (- set sel))"
proof -
  have parts: "{i. i < length xs} =
      {i. i < length xs \<and> i \<in> set sel} \<union> {i. i < length xs \<and> i \<in> - set sel}"
    by auto
  have "card {i. i < length xs} =
      card {i. i < length xs \<and> i \<in> set sel} + card {i. i < length xs \<and> i \<in> - set sel}"
    by (subst parts, rule card_Un_disjoint) auto
  then have "length xs =
      card {i. i < length xs \<and> i \<in> set sel} + length (nths xs (- set sel))"
    by (simp add: length_nths)
  with card_selected_le [of "length xs" sel] show ?thesis
    by linarith
qed

section \<open>The midpoints of the line editor\<close>

lemma midpoints_step_append:
  "midpoints_step pts scale acc a idx = acc @ midpoints_step pts scale [] a idx"
  by (simp add: midpoints_step_def Let_def)

lemma point_midpoints_step:
  "map point (midpoints_step pts scale [] (pts ! i) i) =
     (if int i = int (length pts) - 1 then []
      else [((fst (pts ! i) + fst (pts ! (i + 1))) / 2,
             (snd (pts ! i) + snd (pts ! (i + 1))) / 2)])"
  by (simp add: midpoints_step_def Let_def)

text \<open>
  The visibility test without the square root, as the code equation of the step: a
  distance \<open>sqrt a\<close> exceeds a limit when the limit is negative or its square is below
  \<open>a\<close>.
\<close>

lemma less_sqrt_iff:
  assumes "0 \<le> a"
  shows "(l < sqrt a) = (l < 0 \<or> l ^ 2 < a)"
proof (cases "l < 0")
  case True
  have "0 \<le> sqrt a"
    using assms by simp
  with True have "l < sqrt a"
    by linarith
  with True show ?thesis
    by simp
next
  case False
  then have "l = sqrt (l ^ 2)"
    by simp
  then have "(l < sqrt a) = (sqrt (l ^ 2) < sqrt a)"
    by simp
  also have "\<dots> = (l ^ 2 < a)"
    by (rule real_sqrt_less_iff)
  finally show ?thesis
    using False by simp
qed

lemma midpoints_step_code [code]:
  "midpoints_step pts scale acc thisCorner idx =
     (if int idx = int (length pts) - 1 then acc
      else
        let nextCorner = pts ! (idx + 1);
            mx = (fst thisCorner + fst nextCorner) / 2;
            my = (snd thisCorner + snd nextCorner) / 2;
            limit = MIN_CORNER_DISTANCE / scale;
            vis = (scale \<noteq> 0 \<and>
                   (limit < 0 \<or> limit ^ 2 < (fst nextCorner - mx) ^ 2 + (snd nextCorner - my) ^ 2))
        in acc @ [\<lparr>point = (mx, my), visible = vis\<rparr>])"
  by (simp add: midpoints_step_def Let_def less_sqrt_iff)

lemma midpoints_points:
  "map point (midpoints False s) =
     map (\<lambda>i. ((fst (points (geom s) ! i) + fst (points (geom s) ! (i + 1))) / 2,
               (snd (points (geom s) ! i) + snd (points (geom s) ! (i + 1))) / 2))
       [0..<length (points (geom s)) - 1]"
proof -
  let ?pts = "points (geom s)" and ?sc = "viewportScale s"
  have "midpoints False s
          = concat (map (\<lambda>i. midpoints_step ?pts ?sc [] (?pts ! i) i) [0..<length ?pts])"
    unfolding midpoints_def
    using reduce_idx_append [where f = "midpoints_step ?pts ?sc"
        and g = "midpoints_step ?pts ?sc []" and init = "[]" and xs = ?pts,
        OF midpoints_step_append]
    by simp
  then have "map point (midpoints False s)
          = concat (map (\<lambda>i. map point (midpoints_step ?pts ?sc [] (?pts ! i) i))
              [0..<length ?pts])"
    by (simp add: map_concat comp_def)
  then show ?thesis
    by (simp only: point_midpoints_step concat_skip_last)
qed

lemma length_midpoints: "length (midpoints False s) = length (points (geom s)) - 1"
  using arg_cong [OF midpoints_points [of s], where f = length] by simp

lemma midpoints_touch: "midpoints True s = []"
  by (simp add: midpoints_def)

lemma point_midpoints_nth:
  assumes "i < length (points (geom s)) - 1"
  shows "point (midpoints False s ! i) =
           ((fst (points (geom s) ! i) + fst (points (geom s) ! (i + 1))) / 2,
            (snd (points (geom s) ! i) + snd (points (geom s) ! (i + 1))) / 2)"
proof -
  have "point (midpoints False s ! i) = map point (midpoints False s) ! i"
    using assms by (simp add: length_midpoints)
  also have "\<dots> = ((fst (points (geom s) ! i) + fst (points (geom s) ! (i + 1))) / 2,
            (snd (points (geom s) ! i) + snd (points (geom s) ! (i + 1))) / 2)"
    unfolding midpoints_points using assms by simp
  finally show ?thesis .
qed

lemma exampleEditor_points: "points (geom exampleEditor) = [(0, 0), (2, 2), (4, 2)]"
  by (simp add: exampleEditor_def geom_def)

text \<open>
  C4: on a device without touch, a polyline of \<open>n \<ge> 2\<close> points has \<open>n - 1\<close> midpoints,
  and midpoint \<open>i\<close> lies at the arithmetic mean of the vertices \<open>i\<close> and \<open>i + 1\<close>.
\<close>

theorem midpoints_between_neighbours:
  assumes "2 \<le> length (points (geom s))"
  shows "length (midpoints False s) = length (points (geom s)) - 1
       \<and> (\<forall>i < length (points (geom s)) - 1.
            point (midpoints False s ! i) =
              ((fst (points (geom s) ! i) + fst (points (geom s) ! (i + 1))) / 2,
               (snd (points (geom s) ! i) + snd (points (geom s) ! (i + 1))) / 2))"
  by (simp add: length_midpoints point_midpoints_nth)

theorem midpoints_between_neighbours_witness:
  "2 \<le> length (points (geom exampleEditor))
   \<and> length (midpoints False exampleEditor) = 2
   \<and> point (midpoints False exampleEditor ! 0) = (1, 1)
   \<and> point (midpoints False exampleEditor ! 1) = (3, 2)"
proof -
  have two: "2 \<le> length (points (geom exampleEditor))"
    by (simp add: exampleEditor_points)
  note mid = midpoints_between_neighbours [OF two]
  from mid have len: "length (midpoints False exampleEditor) = 2"
    by (simp add: exampleEditor_points)
  from mid have "point (midpoints False exampleEditor ! 0) =
      ((fst (points (geom exampleEditor) ! 0) + fst (points (geom exampleEditor) ! (0 + 1))) / 2,
       (snd (points (geom exampleEditor) ! 0) + snd (points (geom exampleEditor) ! (0 + 1))) / 2)"
    by (simp add: exampleEditor_points)
  then have first: "point (midpoints False exampleEditor ! 0) = (1, 1)"
    by (simp add: exampleEditor_points)
  from mid have "point (midpoints False exampleEditor ! 1) =
      ((fst (points (geom exampleEditor) ! 1) + fst (points (geom exampleEditor) ! (1 + 1))) / 2,
       (snd (points (geom exampleEditor) ! 1) + snd (points (geom exampleEditor) ! (1 + 1))) / 2)"
    by (simp add: exampleEditor_points)
  then have second: "point (midpoints False exampleEditor ! 1) = (3, 2)"
    by (simp add: exampleEditor_points)
  from two len first second show ?thesis by simp
qed

text \<open>
  C5: for an insertion index that has a midpoint, \<open>onAddPoint\<close> dispatches a change whose
  points are the original ones with that midpoint inserted at position \<open>i + 1\<close>: the
  original points keep their order and the list grows by one.
\<close>

theorem onAddPoint_inserts_midpoint:
  assumes "insertionIndex < length (midpoints isTouch s)"
  shows "\<exists>ln. onAddPoint boundsFromPoints isTouch insertionIndex pnt s = Inr ln
           \<and> points (Line.geometry ln) =
               take (insertionIndex + 1) (points (geom s))
                 @ [point (midpoints isTouch s ! insertionIndex)]
                 @ drop (insertionIndex + 1) (points (geom s))
           \<and> length (points (Line.geometry ln)) = length (points (geom s)) + 1
           \<and> points (Line.geometry ln) ! (insertionIndex + 1)
               = point (midpoints isTouch s ! insertionIndex)
           \<and> take (insertionIndex + 1) (points (Line.geometry ln))
               @ drop (insertionIndex + 2) (points (Line.geometry ln)) = points (geom s)"
proof -
  from assms have nt: "\<not> isTouch"
    by (cases isTouch) (simp_all add: midpoints_touch)
  with assms have "insertionIndex < length (points (geom s)) - 1"
    by (simp add: length_midpoints)
  then have le: "insertionIndex + 1 \<le> length (points (geom s))"
    by simp
  let ?ps = "take (insertionIndex + 1) (points (geom s))
                 @ [point (midpoints isTouch s ! insertionIndex)]
                 @ drop (insertionIndex + 1) (points (geom s))"
  have r: "onAddPoint boundsFromPoints isTouch insertionIndex pnt s
             = Inr ((shape s)\<lparr>Line.geometry :=
                 \<lparr>LineGeometry.bounds = boundsFromPoints ?ps, points = ?ps\<rparr>\<rparr>)"
    using assms by (simp add: onAddPoint_def at_index_def Let_def)
  have len: "length ?ps = length (points (geom s)) + 1"
    using le by simp
  have nth: "?ps ! (insertionIndex + 1) = point (midpoints isTouch s ! insertionIndex)"
    using le by (simp add: nth_append)
  have rest: "take (insertionIndex + 1) ?ps @ drop (insertionIndex + 2) ?ps = points (geom s)"
    using le by (simp add: min_absorb2)
  from r len nth rest show ?thesis by simp
qed

theorem onAddPoint_inserts_midpoint_witness:
  "0 < length (midpoints False exampleEditor)
   \<and> (\<exists>ln. onAddPoint exampleBounds False 0 None exampleEditor = Inr ln
         \<and> points (Line.geometry ln) = [(0, 0), (1, 1), (2, 2), (4, 2)])"
proof -
  have defined: "0 < length (midpoints False exampleEditor)"
    by (simp add: length_midpoints exampleEditor_points)
  from onAddPoint_inserts_midpoint [OF defined, of exampleBounds None]
  obtain ln where r: "onAddPoint exampleBounds False 0 None exampleEditor = Inr ln"
    and p: "points (Line.geometry ln) =
               take (0 + 1) (points (geom exampleEditor))
                 @ [point (midpoints False exampleEditor ! 0)]
                 @ drop (0 + 1) (points (geom exampleEditor))"
    by blast
  have "point (midpoints False exampleEditor ! 0) = (1, 1)"
    by (simp add: point_midpoints_nth exampleEditor_points)
  with p have "points (Line.geometry ln) = [(0, 0), (1, 1), (2, 2), (4, 2)]"
    by (simp add: exampleEditor_points)
  with defined r show ?thesis by blast
qed

section \<open>Selection, dragging and deletion in the line editor\<close>

text \<open>
  C6: a pointer-up on a corner handle changes the selection only if it comes at most
  \<open>CLICK_THRESHOLD = 250\<close> milliseconds after the time in \<open>lastHandleClick\<close>, which a
  handle pointer-down sets; after more than that the state, and so the selection, is
  unchanged.
\<close>

theorem onHandlePointerUp_click_threshold:
  "CLICK_THRESHOLD = 250
   \<and> (\<forall>t. lastHandleClick s = Some t \<and> now - t > 250 \<longrightarrow>
         onHandlePointerUp isTouch idx evt now s = s)
   \<and> (selectedCorners (onHandlePointerUp isTouch idx evt now s) \<noteq> selectedCorners s \<longrightarrow>
         (\<exists>t. lastHandleClick s = Some t \<and> now - t \<le> 250))
   \<and> lastHandleClick (onHandlePointerDown t0 s0) = Some t0"
  by (auto simp: onHandlePointerUp_def onHandlePointerDown_def CLICK_THRESHOLD_def Let_def
        split: option.splits if_splits)

theorem onHandlePointerUp_click_threshold_witness:
  "lastHandleClick (onHandlePointerDown 1000 exampleEditor) = Some 1000
   \<and> onHandlePointerUp False 1 (pointerAt 2 2) 1300 (onHandlePointerDown 1000 exampleEditor)
       = onHandlePointerDown 1000 exampleEditor
   \<and> selectedCorners
       (onHandlePointerUp False 1 (pointerAt 2 2) 1200 (onHandlePointerDown 1000 exampleEditor))
       = [1]
   \<and> (\<exists>t. lastHandleClick (onHandlePointerDown 1000 exampleEditor) = Some t
          \<and> 1200 - t \<le> 250)"
proof -
  let ?s = "onHandlePointerDown 1000 exampleEditor"
  have down: "lastHandleClick ?s = Some 1000"
    by (simp add: onHandlePointerDown_def)
  from onHandlePointerUp_click_threshold [of ?s 1300 False 1 "pointerAt 2 2"] down
  have late: "onHandlePointerUp False 1 (pointerAt 2 2) 1300 ?s = ?s"
    by simp
  have sel: "selectedCorners (onHandlePointerUp False 1 (pointerAt 2 2) 1200 ?s) = [1]"
    by (simp add: onHandlePointerUp_def onHandlePointerDown_def exampleEditor_def
          pointerAt_def CLICK_THRESHOLD_def)
  have "selectedCorners ?s = []"
    by (simp add: onHandlePointerDown_def exampleEditor_def)
  with sel have "selectedCorners (onHandlePointerUp False 1 (pointerAt 2 2) 1200 ?s)
      \<noteq> selectedCorners ?s"
    by simp
  with onHandlePointerUp_click_threshold [of ?s 1200 False 1 "pointerAt 2 2"]
  have "\<exists>t. lastHandleClick ?s = Some t \<and> 1200 - t \<le> 250"
    by blast
  with down late sel show ?thesis by blast
qed

text \<open>
  C8: with more than one corner selected, \<open>editor\<close> moves exactly the points whose index
  is selected by the drag delta and leaves the others as they are, whatever the handle;
  the number of points is unchanged.
\<close>

theorem editor_moves_selected:
  assumes "length (selectedCorners s) > 1"
  shows "length (points (Line.geometry (editor boundsFromPoints s line handle (dx, dy))))
           = length (points (Line.geometry line))
       \<and> (\<forall>i < length (points (Line.geometry line)).
            points (Line.geometry (editor boundsFromPoints s line handle (dx, dy))) ! i =
              (if i \<in> set (selectedCorners s)
               then (fst (points (Line.geometry line) ! i) + dx,
                     snd (points (Line.geometry line) ! i) + dy)
               else points (Line.geometry line) ! i))"
  using assms
  by (simp add: editor_def Let_def length_map_idx nth_map_idx case_prod_unfold)

theorem editor_moves_selected_witness:
  "length (selectedCorners (exampleEditor\<lparr>selectedCorners := [0, 2]\<rparr>)) > 1
   \<and> length (points (Line.geometry (editor exampleBounds
        (exampleEditor\<lparr>selectedCorners := [0, 2]\<rparr>) (shape exampleEditor) ''HANDLE-1''
        (10, 5)))) = 3
   \<and> points (Line.geometry (editor exampleBounds
        (exampleEditor\<lparr>selectedCorners := [0, 2]\<rparr>) (shape exampleEditor) ''HANDLE-1''
        (10, 5))) ! 0 = (10, 5)
   \<and> points (Line.geometry (editor exampleBounds
        (exampleEditor\<lparr>selectedCorners := [0, 2]\<rparr>) (shape exampleEditor) ''HANDLE-1''
        (10, 5))) ! 1 = (2, 2)
   \<and> points (Line.geometry (editor exampleBounds
        (exampleEditor\<lparr>selectedCorners := [0, 2]\<rparr>) (shape exampleEditor) ''HANDLE-1''
        (10, 5))) ! 2 = (14, 7)"
proof -
  let ?s = "exampleEditor\<lparr>selectedCorners := [0, 2]\<rparr>"
  have pts: "points (Line.geometry (shape exampleEditor)) = [(0, 0), (2, 2), (4, 2)]"
    by (simp add: exampleEditor_def)
  have many: "length (selectedCorners ?s) > 1"
    by simp
  note moved = editor_moves_selected
    [OF many, of exampleBounds "shape exampleEditor" "''HANDLE-1''" 10 5]
  from moved have len: "length (points (Line.geometry (editor exampleBounds ?s
        (shape exampleEditor) ''HANDLE-1'' (10, 5)))) = 3"
    by (simp add: pts)
  from moved have p0: "points (Line.geometry (editor exampleBounds ?s
        (shape exampleEditor) ''HANDLE-1'' (10, 5))) ! 0 = (10, 5)"
    by (simp add: pts)
  from moved have p1: "points (Line.geometry (editor exampleBounds ?s
        (shape exampleEditor) ''HANDLE-1'' (10, 5))) ! 1 = (2, 2)"
    by (simp add: pts)
  from moved have p2: "points (Line.geometry (editor exampleBounds ?s
        (shape exampleEditor) ''HANDLE-1'' (10, 5))) ! 2 = (14, 7)"
    by (simp add: pts)
  from many len p0 p1 p2 show ?thesis by blast
qed

text \<open>
  C9: \<open>onDeleteSelected\<close> dispatches a change only when at least two points remain once
  the selected corners are removed, so every geometry it dispatches has at least two
  points; when fewer than two would remain it dispatches nothing and leaves the shape
  and the selection as they are.
\<close>

theorem onDeleteSelected_keeps_two:
  "(\<forall>ln s'. onDeleteSelected boundsFromPoints s = (Some ln, s') \<longrightarrow>
       points (Line.geometry ln) = nths (points (geom s)) (- set (selectedCorners s))
     \<and> 2 \<le> length (points (Line.geometry ln))
     \<and> s' = s\<lparr>selectedCorners := []\<rparr>)
   \<and> (length (nths (points (geom s)) (- set (selectedCorners s))) < 2 \<longrightarrow>
        onDeleteSelected boundsFromPoints s = (None, s))"
proof -
  have rem: "filter_idx (\<lambda>_ i. i \<notin> set (selectedCorners s)) (points (geom s))
               = nths (points (geom s)) (- set (selectedCorners s))"
    using filter_idx_nths [of "- set (selectedCorners s)" "points (geom s)"] by simp
  have low: "length (points (geom s)) - length (selectedCorners s)
               \<le> length (nths (points (geom s)) (- set (selectedCorners s)))"
    by (rule length_nths_remaining)
  show ?thesis
  proof (cases "int (length (points (geom s))) - int (length (selectedCorners s)) < 2")
    case True
    then show ?thesis
      by (simp add: onDeleteSelected_def)
  next
    case False
    then have "2 \<le> length (points (geom s)) - length (selectedCorners s)"
      by linarith
    with low have "2 \<le> length (nths (points (geom s)) (- set (selectedCorners s)))"
      by linarith
    with False rem show ?thesis
      by (auto simp: onDeleteSelected_def Let_def)
  qed
qed

theorem onDeleteSelected_keeps_two_witness:
  "(\<exists>ln. onDeleteSelected exampleBounds (exampleEditor\<lparr>selectedCorners := [1]\<rparr>)
            = (Some ln, exampleEditor)
         \<and> points (Line.geometry ln) = [(0, 0), (4, 2)]
         \<and> 2 \<le> length (points (Line.geometry ln)))
   \<and> length (nths (points (geom (exampleEditor\<lparr>selectedCorners := [0, 1]\<rparr>)))
        (- set (selectedCorners (exampleEditor\<lparr>selectedCorners := [0, 1]\<rparr>)))) < 2
   \<and> onDeleteSelected exampleBounds (exampleEditor\<lparr>selectedCorners := [0, 1]\<rparr>)
       = (None, exampleEditor\<lparr>selectedCorners := [0, 1]\<rparr>)"
proof -
  let ?one = "exampleEditor\<lparr>selectedCorners := [1]\<rparr>"
  let ?two = "exampleEditor\<lparr>selectedCorners := [0, 1]\<rparr>"
  obtain ln where del: "onDeleteSelected exampleBounds ?one = (Some ln, exampleEditor)"
    by (simp add: onDeleteSelected_def geom_def exampleEditor_def Let_def)
  with onDeleteSelected_keeps_two [of exampleBounds ?one]
  have "points (Line.geometry ln) = nths (points (geom ?one)) (- set (selectedCorners ?one))"
    and two: "2 \<le> length (points (Line.geometry ln))"
    by blast+
  then have kept: "points (Line.geometry ln) = [(0, 0), (4, 2)]"
    by (simp add: geom_def exampleEditor_def nths_Cons)
  have few: "length (nths (points (geom ?two)) (- set (selectedCorners ?two))) < 2"
    by (simp add: geom_def exampleEditor_def nths_Cons)
  with onDeleteSelected_keeps_two [of exampleBounds ?two]
  have none: "onDeleteSelected exampleBounds ?two = (None, ?two)"
    by blast
  from del kept two few none show ?thesis by blast
qed

section \<open>Evaluating double arithmetic\<close>

lemma binade_up_step:
  "0 < n \<Longrightarrow> binade_up n v e = (if v < 2 then e else binade_up (n - 1) (v / 2) (e + 1))"
  by (cases n) simp_all

lemma binade_down_step:
  "0 < n \<Longrightarrow>
   binade_down n v e = (if 1 \<le> v then e else binade_down (n - 1) (2 * v) (e - 1))"
  by (cases n) simp_all

lemmas eval64 =
  round64_def exponent64_def ties_to_even_def binade_up_step binade_down_step Let_def

text \<open>
  The doubles met with Control held, the origin at 0.1 and the anchor at 0.5: the width is
  the double nearest to 0.8, the left edge the double nearest to -0.3, which is not the
  exact \<open>0.1 - 0.4\<close>, and the centre computed from them the double 0.09999999999999998.
\<close>

lemma tenth_is_double: "round64 (1 / 10) = tenth"
  by (simp add: tenth_def eval64)

lemma width_at_tenth: "mul64 2 \<bar>sub64 (1 / 2) tenth\<bar> = 7205759403792794 / 2 ^ 53"
  by (simp add: sub64_def mul64_def tenth_def eval64)

lemma corner_at_tenth:
  "min (1 / 2) (sub64 tenth (div64 (7205759403792794 / 2 ^ 53) 2))
     = - (5404319552844596 / 2 ^ 54)"
  by (simp add: sub64_def div64_def tenth_def eval64)

lemma centre_at_tenth:
  "add64 (- (5404319552844596 / 2 ^ 54)) (div64 (7205759403792794 / 2 ^ 53) 2)
     = 7205759403792792 / 2 ^ 56"
  by (simp add: add64_def div64_def eval64)

lemma height_at_zero: "mul64 2 \<bar>sub64 0 0\<bar> = 0"
  by (simp add: sub64_def mul64_def round64_def)

lemma corner_at_zero: "min 0 (sub64 0 (div64 0 2)) = 0"
  by (simp add: sub64_def div64_def round64_def)

section \<open>The rectangle of the rubber-band tool\<close>

text \<open>
  What a call of \<open>updateShape\<close> during a drawing computes, when there is an event to read
  the cursor from.
\<close>

lemma updateShape_drawing:
  assumes "origin s = Some (ox, oy)"
    and "(case maybeEvent of Some e \<Rightarrow> Some e | None \<Rightarrow> lastMoveEvent s) = Some e"
    and "elementToImage (transform s) (offsetX e) (offsetY e) = (ax, ay)"
  shows "\<exists>s'. updateShape maybeEvent s = Inr s'
    \<and> origin s' = Some (ox, oy) \<and> anchor s' = Some (ax, ay)
    \<and> w s' = (if isCtrlPressed s
               then (if isShiftPressed s
                     then max (mul64 2 \<bar>sub64 ax ox\<bar>) (mul64 2 \<bar>sub64 ay oy\<bar>)
                     else mul64 2 \<bar>sub64 ax ox\<bar>)
               else (if isShiftPressed s then max \<bar>sub64 ax ox\<bar> \<bar>sub64 ay oy\<bar>
                     else \<bar>sub64 ax ox\<bar>))
    \<and> h s' = (if isShiftPressed s then w s'
               else if isCtrlPressed s then mul64 2 \<bar>sub64 ay oy\<bar> else \<bar>sub64 ay oy\<bar>)
    \<and> x s' = (if isCtrlPressed s then min ax (sub64 ox (div64 (w s') 2)) else min ax ox)
    \<and> y s' = (if isCtrlPressed s then min ay (sub64 oy (div64 (h s') 2)) else min ay oy)"
proof (cases maybeEvent)
  case None
  with assms show ?thesis
    by (simp add: updateShape_def Let_def)
next
  case (Some e')
  with assms show ?thesis
    by (simp add: updateShape_def Let_def)
qed

text \<open>
  During a drawing the call throws exactly when it is given no event and no pointer move
  has been remembered: a key pressed or released right after the pointer went down.
\<close>

lemma updateShape_throws:
  assumes "origin s = Some org"
  shows "(updateShape maybeEvent s = Inl TypeError)
           = (maybeEvent = None \<and> lastMoveEvent s = None)"
  using assms
  by (cases maybeEvent; cases "lastMoveEvent s") (simp_all add: updateShape_def Let_def)

lemma pointerAt_offsets: "offsetX (pointerAt px py) = px" "offsetY (pointerAt px py) = py"
  by (simp_all add: pointerAt_def)

lemma drawing_example:
  "onPointerDown (pointerAt 10 20) 1000 (idleTool Drag) =
     \<lparr>drawingMode = Drag, transform = \<lparr>elementToImage = Pair\<rparr>,
      origin = Some (10, 20), anchor = Some (10, 20), x = 10, y = 20, w = 1, h = 1,
      isShiftPressed = False, isCtrlPressed = False,
      lastPointerDown = Some 1000, lastMoveEvent = None\<rparr>"
  by (simp add: onPointerDown_def idleTool_def pointerAt_def Let_def)

lemma centred_when_exact:
  assumes "lo = c - r" and "\<bar>a - c\<bar> \<le> r"
  shows "min a lo + r = (c::real)"
  using assms by (simp add: min_def abs_le_iff)

text \<open>
  C1 as stated fails on the code. With Control held, the origin at \<open>(0.1, 0)\<close> and the pointer
  at \<open>(0.5, 0)\<close>, the call returns \<open>w = 0.8\<close> and \<open>x = -0.30000000000000004\<close>, the
  rounded \<open>0.1 - 0.4\<close>; \<open>x + w / 2\<close> is \<open>0.09999999999999998\<close>, in exact and in double
  arithmetic, and not the origin's \<open>0.1\<close>.
\<close>

theorem updateShape_ctrl_centred_counterexample:
  "updateShape (Some (pointerAt (1 / 2) 0))
     ((onPointerDown (pointerAt tenth 0) 1000 (idleTool Drag))\<lparr>isCtrlPressed := True\<rparr>)
   = Inr \<lparr>drawingMode = Drag, transform = \<lparr>elementToImage = Pair\<rparr>,
          origin = Some (tenth, 0), anchor = Some (1 / 2, 0),
          x = - (5404319552844596 / 2 ^ 54), y = 0, w = 7205759403792794 / 2 ^ 53, h = 0,
          isShiftPressed = False, isCtrlPressed = True,
          lastPointerDown = Some 1000, lastMoveEvent = Some (pointerAt (1 / 2) 0)\<rparr>
   \<and> - (5404319552844596 / 2 ^ 54) + (7205759403792794 / 2 ^ 53) / 2 \<noteq> tenth
   \<and> add64 (- (5404319552844596 / 2 ^ 54)) (div64 (7205759403792794 / 2 ^ 53) 2)
       = 7205759403792792 / 2 ^ 56
   \<and> 7205759403792792 / 2 ^ 56 \<noteq> tenth"
proof -
  have start: "(onPointerDown (pointerAt tenth 0) 1000 (idleTool Drag))\<lparr>isCtrlPressed := True\<rparr>
      = \<lparr>drawingMode = Drag, transform = \<lparr>elementToImage = Pair\<rparr>,
         origin = Some (tenth, 0), anchor = Some (tenth, 0), x = tenth, y = 0, w = 1, h = 1,
         isShiftPressed = False, isCtrlPressed = True,
         lastPointerDown = Some 1000, lastMoveEvent = None\<rparr>"
    by (simp add: onPointerDown_def idleTool_def pointerAt_def Let_def)
  have call: "updateShape (Some (pointerAt (1 / 2) 0))
     ((onPointerDown (pointerAt tenth 0) 1000 (idleTool Drag))\<lparr>isCtrlPressed := True\<rparr>)
   = Inr \<lparr>drawingMode = Drag, transform = \<lparr>elementToImage = Pair\<rparr>,
          origin = Some (tenth, 0), anchor = Some (1 / 2, 0),
          x = min (1 / 2) (sub64 tenth (div64 (mul64 2 \<bar>sub64 (1 / 2) tenth\<bar>) 2)),
          y = min 0 (sub64 0 (div64 (mul64 2 \<bar>sub64 0 0\<bar>) 2)),
          w = mul64 2 \<bar>sub64 (1 / 2) tenth\<bar>, h = mul64 2 \<bar>sub64 0 0\<bar>,
          isShiftPressed = False, isCtrlPressed = True,
          lastPointerDown = Some 1000, lastMoveEvent = Some (pointerAt (1 / 2) 0)\<rparr>"
    unfolding start
    by (simp add: updateShape_def Let_def pointerAt_offsets)
  have result: "updateShape (Some (pointerAt (1 / 2) 0))
     ((onPointerDown (pointerAt tenth 0) 1000 (idleTool Drag))\<lparr>isCtrlPressed := True\<rparr>)
   = Inr \<lparr>drawingMode = Drag, transform = \<lparr>elementToImage = Pair\<rparr>,
          origin = Some (tenth, 0), anchor = Some (1 / 2, 0),
          x = - (5404319552844596 / 2 ^ 54), y = 0, w = 7205759403792794 / 2 ^ 53, h = 0,
          isShiftPressed = False, isCtrlPressed = True,
          lastPointerDown = Some 1000, lastMoveEvent = Some (pointerAt (1 / 2) 0)\<rparr>"
    unfolding call
    by (simp only: width_at_tenth corner_at_tenth height_at_zero corner_at_zero)
  have exact: "- (5404319552844596 / 2 ^ 54) + (7205759403792794 / 2 ^ 53) / 2 \<noteq> tenth"
    by (simp add: tenth_def)
  have rounded: "add64 (- (5404319552844596 / 2 ^ 54)) (div64 (7205759403792794 / 2 ^ 53) 2)
       = 7205759403792792 / 2 ^ 56"
    by (rule centre_at_tenth)
  have off: "7205759403792792 / 2 ^ 56 \<noteq> tenth"
    by (simp add: tenth_def)
  from result exact rounded off show ?thesis
    by (intro conjI)
qed

text \<open>
  C1, amended: while a drawing is in progress and Control is held, every call of
  \<open>updateShape\<close> that has a pointer event to read, its argument or the remembered move,
  stores the event's image position as the anchor and sets, in double arithmetic,
  \<open>w = 2 * |anchor.x - origin.x|\<close> and \<open>h = 2 * |anchor.y - origin.y|\<close>, both the larger
  of the two when Shift is held too, \<open>x = min anchor.x (origin.x - w / 2)\<close> and
  \<open>y = min anchor.y (origin.y - h / 2)\<close>. The rectangle is centred on the origin,
  \<open>x + w / 2 = origin.x\<close>, whenever the difference \<open>origin.x - w / 2\<close> is exact and \<open>w / 2\<close>
  is not below \<open>|anchor.x - origin.x|\<close>, and likewise for \<open>y\<close>.
\<close>

theorem updateShape_ctrl_rectangle:
  assumes "origin s = Some (ox, oy)"
    and "isCtrlPressed s"
    and "(case maybeEvent of Some e \<Rightarrow> Some e | None \<Rightarrow> lastMoveEvent s) = Some e"
    and "elementToImage (transform s) (offsetX e) (offsetY e) = (ax, ay)"
  shows "\<exists>s'. updateShape maybeEvent s = Inr s'
    \<and> origin s' = Some (ox, oy) \<and> anchor s' = Some (ax, ay)
    \<and> w s' = (if isShiftPressed s
               then max (mul64 2 \<bar>sub64 ax ox\<bar>) (mul64 2 \<bar>sub64 ay oy\<bar>)
               else mul64 2 \<bar>sub64 ax ox\<bar>)
    \<and> h s' = (if isShiftPressed s then w s' else mul64 2 \<bar>sub64 ay oy\<bar>)
    \<and> x s' = min ax (sub64 ox (div64 (w s') 2))
    \<and> y s' = min ay (sub64 oy (div64 (h s') 2))
    \<and> (sub64 ox (div64 (w s') 2) = ox - div64 (w s') 2 \<and> \<bar>ax - ox\<bar> \<le> div64 (w s') 2
         \<longrightarrow> x s' + div64 (w s') 2 = ox)
    \<and> (sub64 oy (div64 (h s') 2) = oy - div64 (h s') 2 \<and> \<bar>ay - oy\<bar> \<le> div64 (h s') 2
         \<longrightarrow> y s' + div64 (h s') 2 = oy)"
proof -
  from updateShape_drawing [OF assms(1) assms(3) assms(4)] obtain s' where
    r: "updateShape maybeEvent s = Inr s'"
    and org: "origin s' = Some (ox, oy)" and anc: "anchor s' = Some (ax, ay)"
    and w0: "w s' = (if isCtrlPressed s
               then (if isShiftPressed s
                     then max (mul64 2 \<bar>sub64 ax ox\<bar>) (mul64 2 \<bar>sub64 ay oy\<bar>)
                     else mul64 2 \<bar>sub64 ax ox\<bar>)
               else (if isShiftPressed s then max \<bar>sub64 ax ox\<bar> \<bar>sub64 ay oy\<bar>
                     else \<bar>sub64 ax ox\<bar>))"
    and h0: "h s' = (if isShiftPressed s then w s'
               else if isCtrlPressed s then mul64 2 \<bar>sub64 ay oy\<bar> else \<bar>sub64 ay oy\<bar>)"
    and x0: "x s' = (if isCtrlPressed s then min ax (sub64 ox (div64 (w s') 2))
               else min ax ox)"
    and y0: "y s' = (if isCtrlPressed s then min ay (sub64 oy (div64 (h s') 2))
               else min ay oy)"
    by blast
  have ws: "w s' = (if isShiftPressed s
               then max (mul64 2 \<bar>sub64 ax ox\<bar>) (mul64 2 \<bar>sub64 ay oy\<bar>)
               else mul64 2 \<bar>sub64 ax ox\<bar>)"
    using w0 assms(2) by simp
  have hs: "h s' = (if isShiftPressed s then w s' else mul64 2 \<bar>sub64 ay oy\<bar>)"
    using h0 assms(2) by simp
  have xs: "x s' = min ax (sub64 ox (div64 (w s') 2))"
    using x0 assms(2) by simp
  have ys: "y s' = min ay (sub64 oy (div64 (h s') 2))"
    using y0 assms(2) by simp
  have cx: "sub64 ox (div64 (w s') 2) = ox - div64 (w s') 2 \<and> \<bar>ax - ox\<bar> \<le> div64 (w s') 2
         \<longrightarrow> x s' + div64 (w s') 2 = ox"
    unfolding xs by (intro impI centred_when_exact) simp_all
  have cy: "sub64 oy (div64 (h s') 2) = oy - div64 (h s') 2 \<and> \<bar>ay - oy\<bar> \<le> div64 (h s') 2
         \<longrightarrow> y s' + div64 (h s') 2 = oy"
    unfolding ys by (intro impI centred_when_exact) simp_all
  from r org anc ws hs xs ys cx cy show ?thesis
    by blast
qed

theorem updateShape_ctrl_rectangle_witness:
  "origin ((onPointerDown (pointerAt 10 20) 1000 (idleTool Drag))\<lparr>isCtrlPressed := True\<rparr>)
     = Some (10, 20)
   \<and> isCtrlPressed
       ((onPointerDown (pointerAt 10 20) 1000 (idleTool Drag))\<lparr>isCtrlPressed := True\<rparr>)
   \<and> elementToImage
        (transform
          ((onPointerDown (pointerAt 10 20) 1000 (idleTool Drag))\<lparr>isCtrlPressed := True\<rparr>))
        (offsetX (pointerAt 13 16)) (offsetY (pointerAt 13 16)) = (13, 16)
   \<and> (\<exists>s'. updateShape (Some (pointerAt 13 16))
              ((onPointerDown (pointerAt 10 20) 1000 (idleTool Drag))\<lparr>isCtrlPressed := True\<rparr>)
            = Inr s'
          \<and> anchor s' = Some (13, 16)
          \<and> x s' = 7 \<and> y s' = 16 \<and> w s' = 6 \<and> h s' = 8
          \<and> x s' + div64 (w s') 2 = 10 \<and> y s' + div64 (h s') 2 = 20)"
proof -
  let ?s = "(onPointerDown (pointerAt 10 20) 1000 (idleTool Drag))\<lparr>isCtrlPressed := True\<rparr>"
  have org: "origin ?s = Some (10, 20)"
    by (simp add: drawing_example)
  have ctrl: "isCtrlPressed ?s"
    by simp
  have ev: "(case Some (pointerAt 13 16) of Some e \<Rightarrow> Some e | None \<Rightarrow> lastMoveEvent ?s)
      = Some (pointerAt 13 16)"
    by simp
  have img: "elementToImage (transform ?s) (offsetX (pointerAt 13 16))
      (offsetY (pointerAt 13 16)) = (13, 16)"
    by (simp add: drawing_example pointerAt_offsets)
  have plain: "\<not> isShiftPressed ?s"
    by (simp add: drawing_example)
  from updateShape_ctrl_rectangle [OF org ctrl ev img] plain obtain s' where
    r: "updateShape (Some (pointerAt 13 16)) ?s = Inr s'"
    and anc: "anchor s' = Some (13, 16)"
    and ws: "w s' = mul64 2 \<bar>sub64 13 10\<bar>"
    and hs: "h s' = mul64 2 \<bar>sub64 16 20\<bar>"
    and xs: "x s' = min 13 (sub64 10 (div64 (w s') 2))"
    and ys: "y s' = min 16 (sub64 20 (div64 (h s') 2))"
    and cx: "sub64 10 (div64 (w s') 2) = 10 - div64 (w s') 2 \<and> \<bar>13 - 10\<bar> \<le> div64 (w s') 2
         \<longrightarrow> x s' + div64 (w s') 2 = 10"
    and cy: "sub64 20 (div64 (h s') 2) = 20 - div64 (h s') 2 \<and> \<bar>16 - 20\<bar> \<le> div64 (h s') 2
         \<longrightarrow> y s' + div64 (h s') 2 = 20"
    by auto
  have w6: "w s' = 6"
    unfolding ws by (simp add: sub64_def mul64_def eval64)
  have h8: "h s' = 8"
    unfolding hs by (simp add: sub64_def mul64_def eval64)
  have hw: "div64 (w s') 2 = 3"
    unfolding w6 by (simp add: div64_def eval64)
  have hh: "div64 (h s') 2 = 4"
    unfolding h8 by (simp add: div64_def eval64)
  have lx: "sub64 10 3 = 7"
    by (simp add: sub64_def eval64)
  have ly: "sub64 20 4 = 16"
    by (simp add: sub64_def eval64)
  have x7: "x s' = 7"
    unfolding xs hw lx by simp
  have y16: "y s' = 16"
    unfolding ys hh ly by simp
  from cx have c10: "x s' + div64 (w s') 2 = 10"
    unfolding hw lx by simp
  from cy have c20: "y s' + div64 (h s') 2 = 20"
    unfolding hh ly by simp
  from org ctrl img r anc x7 y16 w6 h8 c10 c20 show ?thesis
    by blast
qed

section \<open>A key pressed or released before the pointer moves\<close>

text \<open>
  In drag mode the pointer goes down at \<open>(10, 20)\<close> and no pointer move has been
  remembered. A key handler then sets its flag and calls \<open>updateShape\<close> without an event:
  the call throws at \<^verbatim>\<open>evt!.offsetX\<close> and the rectangle stays the initial one, of width
  and height 1 at the origin. With Control:
\<close>

lemma onKeyDown_before_move:
  "onKeyDown \<lparr>key = ''Control''\<rparr> (onPointerDown (pointerAt 10 20) 1000 (idleTool Drag)) =
     (Some TypeError,
      (onPointerDown (pointerAt 10 20) 1000 (idleTool Drag))\<lparr>isCtrlPressed := True\<rparr>)"
  by (simp add: onKeyDown_def redraw_def updateShape_def drawing_example)

text \<open>
  C2: while a drawing is in progress and Shift is held, every call of \<open>updateShape\<close> is to
  leave \<open>w = h\<close>, both the larger of \<open>|anchor.x - origin.x|\<close> and \<open>|anchor.y - origin.y|\<close>.
  The code misses the call without an event: Shift pressed after the pointer went down
  and before it moved makes \<open>updateShape\<close> throw, and with the anchor on the origin, where
  the larger extent is 0, the rectangle keeps \<open>w = h = 1\<close>.
\<close>

theorem onKeyDown_shift_before_move:
  "onKeyDown \<lparr>key = ''Shift''\<rparr> (onPointerDown (pointerAt 10 20) 1000 (idleTool Drag)) =
     (Some TypeError,
      \<lparr>drawingMode = Drag, transform = \<lparr>elementToImage = Pair\<rparr>,
       origin = Some (10, 20), anchor = Some (10, 20), x = 10, y = 20, w = 1, h = 1,
       isShiftPressed = True, isCtrlPressed = False,
       lastPointerDown = Some 1000, lastMoveEvent = None\<rparr>)
   \<and> updateShape None
       \<lparr>drawingMode = Drag, transform = \<lparr>elementToImage = Pair\<rparr>,
        origin = Some (10, 20), anchor = Some (10, 20), x = 10, y = 20, w = 1, h = 1,
        isShiftPressed = True, isCtrlPressed = False,
        lastPointerDown = Some 1000, lastMoveEvent = None\<rparr> = Inl TypeError
   \<and> max \<bar>10 - 10\<bar> \<bar>20 - 20\<bar> = (0::real)"
  by (simp add: onKeyDown_def redraw_def updateShape_def drawing_example)

text \<open>
  C3: while a drawing is in progress and neither Shift nor Control is held, every call of
  \<open>updateShape\<close> is to leave the bounding box of the origin and the anchor, of width
  \<open>|anchor.x - origin.x|\<close> and height \<open>|anchor.y - origin.y|\<close>. The code misses the call
  without an event: Shift is held when the pointer goes down and is released before the
  pointer moves; \<open>updateShape\<close> throws, and with the anchor on the origin, where the
  bounding box has width and height 0, the rectangle keeps \<open>w = h = 1\<close>.
\<close>

theorem onKeyUp_shift_before_move:
  "onKeyDown \<lparr>key = ''Shift''\<rparr> (idleTool Drag)
     = (None, (idleTool Drag)\<lparr>isShiftPressed := True\<rparr>)
   \<and> onKeyUp \<lparr>key = ''Shift''\<rparr>
       (onPointerDown (pointerAt 10 20) 1000 ((idleTool Drag)\<lparr>isShiftPressed := True\<rparr>)) =
     (Some TypeError,
      \<lparr>drawingMode = Drag, transform = \<lparr>elementToImage = Pair\<rparr>,
       origin = Some (10, 20), anchor = Some (10, 20), x = 10, y = 20, w = 1, h = 1,
       isShiftPressed = False, isCtrlPressed = False,
       lastPointerDown = Some 1000, lastMoveEvent = None\<rparr>)
   \<and> updateShape None
       \<lparr>drawingMode = Drag, transform = \<lparr>elementToImage = Pair\<rparr>,
        origin = Some (10, 20), anchor = Some (10, 20), x = 10, y = 20, w = 1, h = 1,
        isShiftPressed = False, isCtrlPressed = False,
        lastPointerDown = Some 1000, lastMoveEvent = None\<rparr> = Inl TypeError
   \<and> \<bar>10 - 10\<bar> = (0::real) \<and> \<bar>20 - 20\<bar> = (0::real)"
  by (simp add: onKeyDown_def onKeyUp_def redraw_def updateShape_def onPointerDown_def
        idleTool_def pointerAt_def Let_def)

section \<open>Finishing a drawing\<close>

lemma clicking_example:
  "onPointerDown (pointerAt 30 40) 2000
     (snd (snd (onPointerUp (pointerAt 10 20) 1100
        (onPointerDown (pointerAt 10 20) 1000 (idleTool Click))))) =
     \<lparr>drawingMode = Click, transform = \<lparr>elementToImage = Pair\<rparr>,
      origin = Some (10, 20), anchor = Some (10, 20), x = 10, y = 20, w = 1, h = 1,
      isShiftPressed = False, isCtrlPressed = False,
      lastPointerDown = Some 2000, lastMoveEvent = None\<rparr>"
  by (simp add: onPointerDown_def onPointerUp_def exceeds_def idleTool_def pointerAt_def
        Let_def)

text \<open>
  C7: in click mode a pointer-up more than 300 milliseconds after the last pointer-down
  is ignored: nothing is dispatched and the state, with \<open>origin\<close>, \<open>anchor\<close>, \<open>x\<close>, \<open>y\<close>,
  \<open>w\<close> and \<open>h\<close>, is as before.
\<close>

theorem onPointerUp_click_late_ignored:
  assumes "drawingMode s = Click"
    and "lastPointerDown s = Some t"
    and "now - t > 300"
  shows "onPointerUp evt now s = (None, False, s)"
  using assms by (simp add: onPointerUp_def exceeds_def)

theorem onPointerUp_click_late_ignored_witness:
  "drawingMode (onPointerDown (pointerAt 30 40) 2000
       (snd (snd (onPointerUp (pointerAt 10 20) 1100
          (onPointerDown (pointerAt 10 20) 1000 (idleTool Click)))))) = Click
   \<and> lastPointerDown (onPointerDown (pointerAt 30 40) 2000
       (snd (snd (onPointerUp (pointerAt 10 20) 1100
          (onPointerDown (pointerAt 10 20) 1000 (idleTool Click)))))) = Some 2000
   \<and> (2400::real) - 2000 > 300
   \<and> origin (onPointerDown (pointerAt 30 40) 2000
       (snd (snd (onPointerUp (pointerAt 10 20) 1100
          (onPointerDown (pointerAt 10 20) 1000 (idleTool Click)))))) = Some (10, 20)
   \<and> onPointerUp (pointerAt 30 40) 2400
       (onPointerDown (pointerAt 30 40) 2000
         (snd (snd (onPointerUp (pointerAt 10 20) 1100
            (onPointerDown (pointerAt 10 20) 1000 (idleTool Click))))))
     = (None, False,
        onPointerDown (pointerAt 30 40) 2000
         (snd (snd (onPointerUp (pointerAt 10 20) 1100
            (onPointerDown (pointerAt 10 20) 1000 (idleTool Click))))))"
proof -
  let ?s = "onPointerDown (pointerAt 30 40) 2000
       (snd (snd (onPointerUp (pointerAt 10 20) 1100
          (onPointerDown (pointerAt 10 20) 1000 (idleTool Click)))))"
  have mode: "drawingMode ?s = Click"
    by (simp add: clicking_example)
  have down: "lastPointerDown ?s = Some 2000"
    by (simp add: clicking_example)
  have late: "(2400::real) - 2000 > 300"
    by simp
  have org: "origin ?s = Some (10, 20)"
    by (simp add: clicking_example)
  from onPointerUp_click_late_ignored [OF mode down late, of "pointerAt 30 40"]
    mode down late org
  show ?thesis
    by blast
qed



end
